theory Spec2Isabelle
  imports Main "HOL-Library.List_Lexorder" "HOL-Library.Char_ord"
begin

section \<open>Python values, exceptions and dictionaries\<close>

text \<open>
  The values that flow through \<open>clorm/orm.py\<close>: \<open>None\<close>, integers and strings.
  Field values that are themselves facts (the values of a \<open>ComplexField\<close>) are not
  part of this value type; field definitions are duck-typed in the source
  (\<open>_is_field_defn\<close> only asks for the attribute \<open>is_field_defn\<close>), so a field
  definition is a record of its operations below and the schema-level functions are
  stated for any such record.
\<close>

datatype val = NoneV | IntV int | StrV string

text \<open>
  Exceptions are values. The source raises \<open>ValueError\<close> for every failure of its
  own; the message (without its formatted arguments) tells the failures apart. A
  function that raises returns the exception alone: the state it had reached is kept
  only where placeholders are bound, whose store outlives the call.
\<close>

datatype error =
    ValueError string
  | TypeError
  | KeyError
  | AttributeError
  | IndexError

text \<open>Python's truth value of an object, as \<open>if not x\<close> tests it.\<close>

fun truthy :: "val \<Rightarrow> bool" where
  "truthy NoneV = False"
| "truthy (IntV i) = (i \<noteq> 0)"
| "truthy (StrV s) = (s \<noteq> [])"

text \<open>
  A \<open>dict\<close> (and an \<open>OrderedDict\<close>) is an association list in insertion order with
  distinct keys: assigning to a key that is present keeps its position.
\<close>

fun dict_set :: "'k \<Rightarrow> 'v \<Rightarrow> ('k \<times> 'v) list \<Rightarrow> ('k \<times> 'v) list" where
  "dict_set k v [] = [(k, v)]"
| "dict_set k v (p # ps) = (if fst p = k then (k, v) # ps else p # dict_set k v ps)"

definition dict_get :: "('k \<times> 'v) list \<Rightarrow> 'k \<Rightarrow> 'v option" where
  "dict_get d k = map_of d k"

definition dict_keys :: "('k \<times> 'v) list \<Rightarrow> 'k list" where
  "dict_keys d = map fst d"

section \<open>Comparison operators on Python values\<close>

text \<open>
  \<open>operator.eq\<close>, \<open>ne\<close>, \<open>lt\<close>, \<open>le\<close>, \<open>gt\<close>, \<open>ge\<close>. Equality never raises;
  an ordering comparison between values of different types, or with \<open>None\<close>,
  raises \<open>TypeError\<close>.
\<close>

datatype compop = Eq | Ne | Lt | Le | Gt | Ge

fun py_lt :: "val \<Rightarrow> val \<Rightarrow> error + bool" where
  "py_lt (IntV a) (IntV b) = Inr (a < b)"
| "py_lt (StrV a) (StrV b) = Inr (a < b)"
| "py_lt _ _ = Inl TypeError"

fun py_le :: "val \<Rightarrow> val \<Rightarrow> error + bool" where
  "py_le (IntV a) (IntV b) = Inr (a \<le> b)"
| "py_le (StrV a) (StrV b) = Inr (a \<le> b)"
| "py_le _ _ = Inl TypeError"

fun apply_compop :: "compop \<Rightarrow> val \<Rightarrow> val \<Rightarrow> error + bool" where
  "apply_compop Eq a b = Inr (a = b)"
| "apply_compop Ne a b = Inr (a \<noteq> b)"
| "apply_compop Lt a b = py_lt a b"
| "apply_compop Le a b = py_le a b"
| "apply_compop Gt a b = py_lt b a"
| "apply_compop Ge a b = py_le b a"

section \<open>Clingo symbols and the simple field definitions\<close>

text \<open>
  The symbols of the solver library: \<open>clingo.Number\<close>, \<open>clingo.String\<close>,
  \<open>clingo.Function\<close> (a constant has no arguments, a tuple has the empty name), and
  the two special symbols. \<open>clingo.Number\<close> and \<open>clingo.String\<close> reject a value of
  the wrong Python type with \<open>TypeError\<close>.
\<close>

datatype symbol =
    Number int
  | String string
  | Function string "symbol list"
  | Infimum
  | Supremum

fun integer_cltopy :: "symbol \<Rightarrow> error + val" where
  "integer_cltopy (Number n) = Inr (IntV n)"
| "integer_cltopy _ = Inl TypeError"

fun string_cltopy :: "symbol \<Rightarrow> error + val" where
  "string_cltopy (String s) = Inr (StrV s)"
| "string_cltopy _ = Inl TypeError"

fun constant_cltopy :: "symbol \<Rightarrow> error + val" where
  "constant_cltopy (Function nm args) =
     (if nm = [] \<or> length args \<noteq> 0 then Inl TypeError else Inr (StrV nm))"
| "constant_cltopy _ = Inl TypeError"

fun integer_pytocl :: "val \<Rightarrow> error + symbol" where
  "integer_pytocl (IntV n) = Inr (Number n)"
| "integer_pytocl _ = Inl TypeError"

fun string_pytocl :: "val \<Rightarrow> error + symbol" where
  "string_pytocl (StrV s) = Inr (String s)"
| "string_pytocl _ = Inl TypeError"

fun constant_pytocl :: "val \<Rightarrow> error + symbol" where
  "constant_pytocl (StrV s) = Inr (Function s [])"
| "constant_pytocl _ = Inl TypeError"

fun integer_unifies :: "symbol \<Rightarrow> bool" where
  "integer_unifies (Number n) = True"
| "integer_unifies _ = False"

fun string_unifies :: "symbol \<Rightarrow> bool" where
  "string_unifies (String s) = True"
| "string_unifies _ = False"

fun constant_unifies :: "symbol \<Rightarrow> bool" where
  "constant_unifies (Function nm args) =
     (if nm = [] \<or> length args \<noteq> 0 then False else True)"
| "constant_unifies _ = False"

text \<open>
  A field definition: the operations \<open>pytocl\<close>, \<open>cltopy\<close>, \<open>unifies\<close> and the
  property \<open>default\<close> (\<open>None\<close> when no default was declared).
\<close>

record field_defn =
  pytocl :: "val \<Rightarrow> error + symbol"
  cltopy :: "symbol \<Rightarrow> error + val"
  unifies :: "symbol \<Rightarrow> bool"
  field_default :: val

text \<open>
  \<open>SimpleField\<close>: the conversion functions \<open>infunc\<close> and \<open>outfunc\<close> are optional
  (\<open>None\<close> is falsy, a function is truthy) and are taken to be total.
\<close>

definition SimpleField ::
  "(symbol \<Rightarrow> error + val) \<Rightarrow> (val \<Rightarrow> error + symbol) \<Rightarrow> (symbol \<Rightarrow> bool) \<Rightarrow>
   (val \<Rightarrow> val) option \<Rightarrow> (val \<Rightarrow> val) option \<Rightarrow> val \<Rightarrow> field_defn" where
  "SimpleField inner_cltopy inner_pytocl unif outfunc infunc dflt =
     \<lparr> pytocl = (\<lambda>v. case infunc of Some f \<Rightarrow> inner_pytocl (f v) | None \<Rightarrow> inner_pytocl v),
       cltopy = (\<lambda>s. case outfunc of
                        Some g \<Rightarrow> (case inner_cltopy s of Inl e \<Rightarrow> Inl e | Inr v \<Rightarrow> Inr (g v))
                      | None \<Rightarrow> inner_cltopy s),
       unifies = unif,
       field_default = dflt \<rparr>"

definition IntegerField :: "(val \<Rightarrow> val) option \<Rightarrow> (val \<Rightarrow> val) option \<Rightarrow> val \<Rightarrow> field_defn" where
  "IntegerField outfunc infunc dflt =
     SimpleField integer_cltopy integer_pytocl integer_unifies outfunc infunc dflt"

definition StringField :: "(val \<Rightarrow> val) option \<Rightarrow> (val \<Rightarrow> val) option \<Rightarrow> val \<Rightarrow> field_defn" where
  "StringField outfunc infunc dflt =
     SimpleField string_cltopy string_pytocl string_unifies outfunc infunc dflt"

definition ConstantField :: "(val \<Rightarrow> val) option \<Rightarrow> (val \<Rightarrow> val) option \<Rightarrow> val \<Rightarrow> field_defn" where
  "ConstantField outfunc infunc dflt =
     SimpleField constant_cltopy constant_pytocl constant_unifies outfunc infunc dflt"

section \<open>Predicate classes and facts\<close>

text \<open>
  \<open>NonLogicalSymbol.MetaData\<close>: the predicate name and the ordered field
  definitions. A predicate class is its identity together with its metadata; two
  classes are the same type only if they are the same object.
\<close>

record metadata =
  meta_name :: string
  field_defns :: "(string \<times> field_defn) list"

definition arity :: "metadata \<Rightarrow> nat" where
  "arity md = length (map fst (field_defns md))"

record nls_class =
  class_id :: nat
  meta :: metadata

text \<open>
  An instance of a predicate class: its class, the dictionary \<open>_field_values\<close> and
  the attribute \<open>_symbol\<close> (\<open>None\<close> until a constructor sets it).
\<close>

record fact =
  fact_class :: nat
  field_values :: "(string \<times> val) list"
  symbol_attr :: "symbol option"

text \<open>\<open>_generate_symbol\<close>: encode every field value, in field order.\<close>

fun generate_args :: "(string \<times> field_defn) list \<Rightarrow> (string \<times> val) list \<Rightarrow> error + symbol list" where
  "generate_args [] fv = Inr []"
| "generate_args (fd # rest) fv =
     (case dict_get fv (fst fd) of
        None \<Rightarrow> Inl KeyError
      | Some v \<Rightarrow>
          (case pytocl (snd fd) v of
             Inl e \<Rightarrow> Inl e
           | Inr s \<Rightarrow>
               (case generate_args rest fv of
                  Inl e \<Rightarrow> Inl e
                | Inr ss \<Rightarrow> Inr (s # ss))))"

definition generate_symbol :: "nls_class \<Rightarrow> fact \<Rightarrow> error + symbol" where
  "generate_symbol cls self =
     (case generate_args (field_defns (meta cls)) (field_values self) of
        Inl e \<Rightarrow> Inl e
      | Inr pred_args \<Rightarrow> Inr (Function (meta_name (meta cls)) pred_args))"

text \<open>The property \<open>symbol\<close> recomputes the symbol from the stored field values.\<close>

definition symbol_of :: "nls_class \<Rightarrow> fact \<Rightarrow> error + symbol" where
  "symbol_of cls self = generate_symbol cls self"

text \<open>\<open>_unifies\<close>: name, number of arguments, then each argument against its field.\<close>

fun unifies_loop :: "(string \<times> field_defn) list \<Rightarrow> symbol list \<Rightarrow> bool" where
  "unifies_loop [] args = True"
| "unifies_loop (fd # rest) [] = True"
| "unifies_loop (fd # rest) (a # args) =
     (if \<not> unifies (snd fd) a then False else unifies_loop rest args)"

fun nls_unifies :: "nls_class \<Rightarrow> symbol \<Rightarrow> bool" where
  "nls_unifies cls (Function nm args) =
     (if nm \<noteq> meta_name (meta cls) then False
      else if length args \<noteq> length (field_defns (meta cls)) then False
      else unifies_loop (field_defns (meta cls)) args)"
| "nls_unifies cls _ = False"

text \<open>\<open>_nls_init_by_symbol\<close>, reached through \<open>cls(_symbol=symbol)\<close> and \<open>_unify\<close>.\<close>

fun decode_args :: "(string \<times> field_defn) list \<Rightarrow> symbol list \<Rightarrow> (string \<times> val) list \<Rightarrow>
    error + (string \<times> val) list" where
  "decode_args [] args fv = Inr fv"
| "decode_args (fd # rest) [] fv = Inl IndexError"
| "decode_args (fd # rest) (a # args) fv =
     (case cltopy (snd fd) a of
        Inl e \<Rightarrow> Inl e
      | Inr v \<Rightarrow> decode_args rest args (dict_set (fst fd) v fv))"

fun symbol_arguments :: "symbol \<Rightarrow> symbol list" where
  "symbol_arguments (Function nm args) = args"
| "symbol_arguments _ = []"

definition nls_init_by_symbol :: "nls_class \<Rightarrow> symbol \<Rightarrow> error + fact" where
  "nls_init_by_symbol cls symb =
     (if \<not> nls_unifies cls symb then Inl (ValueError ''Failed to unify symbol'')
      else case decode_args (field_defns (meta cls)) (symbol_arguments symb) [] of
             Inl e \<Rightarrow> Inl e
           | Inr fv \<Rightarrow> Inr \<lparr> fact_class = class_id cls, field_values = fv,
                            symbol_attr = Some symb \<rparr>)"

definition unify :: "nls_class \<Rightarrow> symbol \<Rightarrow> error + fact" where
  "unify cls symb = nls_init_by_symbol cls symb"

text \<open>\<open>_nls_init_by_keyword_values\<close>.\<close>

fun keyword_loop :: "(string \<times> field_defn) list \<Rightarrow> (string \<times> val) list \<Rightarrow> (string \<times> val) list \<Rightarrow>
    error + (string \<times> val) list" where
  "keyword_loop [] kwargs fv = Inr fv"
| "keyword_loop (fd # rest) kwargs fv =
     (case dict_get kwargs (fst fd) of
        None \<Rightarrow>
          (if \<not> truthy (field_default (snd fd))
           then Inl (ValueError ''Unspecified field has no default value'')
           else keyword_loop rest kwargs (dict_set (fst fd) (field_default (snd fd)) fv))
      | Some v \<Rightarrow> keyword_loop rest kwargs (dict_set (fst fd) v fv))"

definition nls_init_by_keyword_values :: "nls_class \<Rightarrow> (string \<times> val) list \<Rightarrow> error + fact" where
  "nls_init_by_keyword_values cls kwargs =
     (let fields = set (dict_keys (field_defns (meta cls)));
          invalids = filter (\<lambda>k. k \<notin> fields) (dict_keys kwargs)
      in if invalids \<noteq> [] then Inl (ValueError ''Arguments are not valid fields'')
         else case keyword_loop (field_defns (meta cls)) kwargs [] of
                Inl e \<Rightarrow> Inl e
              | Inr fv \<Rightarrow>
                  (let self = \<lparr> fact_class = class_id cls, field_values = fv, symbol_attr = None \<rparr>
                   in case generate_symbol cls self of
                        Inl e \<Rightarrow> Inl e
                      | Inr s \<Rightarrow> Inr (self\<lparr> symbol_attr := Some s \<rparr>)))"

text \<open>
  \<open>_nls_init_by_positional_values\<close>. On an argument count that differs from the
  arity the source executes \<open>return ValueError(...)\<close>: the initialiser returns
  normally and the caller keeps the object as \<open>_nls_constructor\<close> set it up.
\<close>

fun positional_loop :: "(string \<times> field_defn) list \<Rightarrow> val list \<Rightarrow> (string \<times> val) list \<Rightarrow>
    error + (string \<times> val) list" where
  "positional_loop [] args fv = Inr fv"
| "positional_loop (fd # rest) [] fv = Inl IndexError"
| "positional_loop (fd # rest) (a # args) fv = positional_loop rest args (dict_set (fst fd) a fv)"

definition nls_init_by_positional_values :: "nls_class \<Rightarrow> val list \<Rightarrow> error + fact" where
  "nls_init_by_positional_values cls args =
     (let self0 = \<lparr> fact_class = class_id cls, field_values = [], symbol_attr = None \<rparr>;
          argc = length args;
          arity = length (field_defns (meta cls))
      in if argc \<noteq> arity then Inr self0
         else case positional_loop (field_defns (meta cls)) args [] of
                Inl e \<Rightarrow> Inl e
              | Inr fv \<Rightarrow>
                  (let self = self0\<lparr> field_values := fv \<rparr>
                   in case generate_symbol cls self of
                        Inl e \<Rightarrow> Inl e
                      | Inr s \<Rightarrow> Inr (self\<lparr> symbol_attr := Some s \<rparr>)))"

text \<open>
  \<open>_nls_constructor\<close> for a call \<open>cls(*args, **kwargs)\<close> whose keyword values are
  Python values. A keyword \<open>_symbol\<close> selects \<open>_nls_init_by_symbol\<close>, which is
  modelled by \<open>unify\<close> for a symbol argument; with a value that is not a symbol it
  fails on the argument count or on the first attribute access.
\<close>

definition nls_constructor :: "nls_class \<Rightarrow> val list \<Rightarrow> (string \<times> val) list \<Rightarrow> error + fact" where
  "nls_constructor cls args kwargs =
     (if ''_symbol'' \<in> set (dict_keys kwargs)
      then (if length kwargs \<noteq> 1
            then Inl (ValueError ''Invalid combination of keyword arguments'')
            else Inl AttributeError)
      else if length args > 0 then nls_init_by_positional_values cls args
      else nls_init_by_keyword_values cls kwargs)"

section \<open>Field accessors\<close>

text \<open>
  \<open>_Field\<close>: the accessor the metaclass installs for each field, one object per
  class and field, created with the default \<open>no_setter=True\<close> and with its parent
  set to the class. The accessor's reference to the field definition is not used by
  any function below and is left out. \<open>isinstance\<close> is identity of the class.
\<close>

record Field =
  no_setter :: bool
  field_name :: string
  field_index :: nat
  parent :: nat

definition field_accessors :: "nls_class \<Rightarrow> Field list" where
  "field_accessors cls =
     map (\<lambda>p. \<lparr> no_setter = True, field_name = fst (snd p), field_index = fst p,
                 parent = class_id cls \<rparr>)
         (enumerate 0 (field_defns (meta cls)))"

text \<open>
  \<open>__get__\<close> and \<open>__set__\<close> on an instance (a fact is always truthy, so the branch
  of \<open>__get__\<close> for access through the class is not taken).
\<close>

definition Field_get :: "Field \<Rightarrow> fact \<Rightarrow> error + val" where
  "Field_get self instance =
     (if fact_class instance \<noteq> parent self then Inl TypeError
      else case dict_get (field_values instance) (field_name self) of
             None \<Rightarrow> Inl KeyError
           | Some v \<Rightarrow> Inr v)"

definition Field_set :: "Field \<Rightarrow> fact \<Rightarrow> val \<Rightarrow> error + fact" where
  "Field_set self instance v =
     (if \<not> no_setter self then Inl AttributeError
      else if fact_class instance \<noteq> parent self then Inl TypeError
      else Inr (instance\<lparr> field_values := dict_set (field_name self) v (field_values instance) \<rparr>))"

text \<open>Indexing the tuple \<open>_field_accessors\<close> with a Python integer.\<close>

definition tuple_item :: "'a list \<Rightarrow> int \<Rightarrow> error + 'a" where
  "tuple_item xs idx =
     (if 0 \<le> idx \<and> idx < int (length xs) then Inr (xs ! nat idx)
      else if idx < 0 \<and> - int (length xs) \<le> idx then Inr (xs ! nat (int (length xs) + idx))
      else Inl IndexError)"

definition nls_getitem :: "nls_class \<Rightarrow> fact \<Rightarrow> int \<Rightarrow> error + val" where
  "nls_getitem cls self idx =
     (case tuple_item (field_accessors cls) idx of
        Inl e \<Rightarrow> Inl e
      | Inr fa \<Rightarrow> Field_get fa self)"

definition nls_setitem :: "nls_class \<Rightarrow> fact \<Rightarrow> int \<Rightarrow> val \<Rightarrow> error + fact" where
  "nls_setitem cls self idx v =
     (case tuple_item (field_accessors cls) idx of
        Inl e \<Rightarrow> Inl e
      | Inr fa \<Rightarrow> Field_set fa self v)"

section \<open>Placeholders\<close>

text \<open>
  A \<open>_Placeholder\<close> object: its identity and its immutable attributes. The mutable
  attribute \<open>_value\<close> of every placeholder lives in a store indexed by identity, so
  that a comparator and a query that hold the same placeholder see the same value.
\<close>

record placeholder =
  ph_id :: nat
  ph_name :: val
  ph_default :: val

type_synonym ph_store = "nat \<Rightarrow> val"

definition ph :: "nat \<Rightarrow> val \<Rightarrow> val \<Rightarrow> placeholder" where
  "ph i nm dflt = \<lparr> ph_id = i, ph_name = nm, ph_default = dflt \<rparr>"

definition ph2 :: "nat \<Rightarrow> placeholder" where "ph2 i = ph i (IntV 1) NoneV"
definition ph3 :: "nat \<Rightarrow> placeholder" where "ph3 i = ph i (IntV 2) NoneV"
definition ph4 :: "nat \<Rightarrow> placeholder" where "ph4 i = ph i (IntV 3) NoneV"

definition ph_reset :: "placeholder \<Rightarrow> ph_store \<Rightarrow> ph_store" where
  "ph_reset p st = st(ph_id p := ph_default p)"

definition ph_set_value :: "placeholder \<Rightarrow> val \<Rightarrow> ph_store \<Rightarrow> ph_store" where
  "ph_set_value p v st = st(ph_id p := v)"

definition ph_value :: "placeholder \<Rightarrow> ph_store \<Rightarrow> val" where
  "ph_value p st = st (ph_id p)"

section \<open>Comparators\<close>

datatype carg = AField Field | APlaceholder placeholder | AValue val

datatype boolop = Op_not | Op_and | Op_or

text \<open>
  The three comparator classes. A \<open>_FieldComparator\<close> stores its operator, its two
  arguments and, when it is static, its precomputed value (\<open>_static\<close> and
  \<open>_value\<close>).
\<close>

datatype comparator =
    StaticComparator bool
  | FieldComparator compop carg carg "bool option"
  | BoolComparator boolop "comparator list"

text \<open>
  \<open>_FieldComparator.__init__\<close>. \<open>arg1 is arg2\<close> is identity: of the accessor, of
  the placeholder, and of \<open>None\<close>; for two other values both branches that can be
  taken make the comparator static, with the same value when the two are one object.
  An argument that is callable is taken to have been called already.
\<close>

fun is_same :: "carg \<Rightarrow> carg \<Rightarrow> bool" where
  "is_same (AField f) (AField g) = (f = g)"
| "is_same (APlaceholder p) (APlaceholder q) = (ph_id p = ph_id q)"
| "is_same (AValue NoneV) (AValue NoneV) = True"
| "is_same _ _ = False"

fun is_field :: "carg \<Rightarrow> bool" where
  "is_field (AField f) = True"
| "is_field _ = False"

text \<open>The operator applied to two objects neither of which is an accessor.\<close>

fun object_compop :: "compop \<Rightarrow> carg \<Rightarrow> carg \<Rightarrow> error + bool" where
  "object_compop op (AValue a) (AValue b) = apply_compop op a b"
| "object_compop Eq _ _ = Inr False"
| "object_compop Ne _ _ = Inr True"
| "object_compop _ _ _ = Inl TypeError"

definition FieldComparator_init :: "compop \<Rightarrow> carg \<Rightarrow> carg \<Rightarrow> error + comparator" where
  "FieldComparator_init op arg1 arg2 =
     (if is_same arg1 arg2
      then (case apply_compop op (IntV 1) (IntV 1) of
              Inl e \<Rightarrow> Inl e
            | Inr v \<Rightarrow> Inr (FieldComparator op arg1 arg2 (Some v)))
      else if \<not> is_field arg1 \<and> \<not> is_field arg2
      then (case object_compop op arg1 arg2 of
              Inl e \<Rightarrow> Inl e
            | Inr v \<Rightarrow> Inr (FieldComparator op arg1 arg2 (Some v)))
      else Inr (FieldComparator op arg1 arg2 None))"

text \<open>The comparison operators of an accessor build a comparator.\<close>

definition Field_compare :: "compop \<Rightarrow> Field \<Rightarrow> carg \<Rightarrow> error + comparator" where
  "Field_compare op self other = FieldComparator_init op (AField self) other"

definition BoolComparator_init :: "boolop \<Rightarrow> comparator list \<Rightarrow> error + comparator" where
  "BoolComparator_init bop args =
     (if bop = Op_not \<and> length args \<noteq> 1 then Inl IndexError
      else if bop \<noteq> Op_not \<and> length args \<le> 1 then Inl IndexError
      else Inr (BoolComparator bop args))"

definition not_f :: "comparator list \<Rightarrow> error + comparator" where
  "not_f conditions = BoolComparator_init Op_not conditions"

definition and_f :: "comparator list \<Rightarrow> error + comparator" where
  "and_f conditions = BoolComparator_init Op_and conditions"

definition or_f :: "comparator list \<Rightarrow> error + comparator" where
  "or_f conditions = BoolComparator_init Op_or conditions"

subsection \<open>Evaluation\<close>

fun getargval :: "ph_store \<Rightarrow> carg \<Rightarrow> fact \<Rightarrow> error + val" where
  "getargval st (AField f) fct = Field_get f fct"
| "getargval st (APlaceholder p) fct = Inr (ph_value p st)"
| "getargval st (AValue v) fct = Inr v"

text \<open>\<open>except (KeyError, TypeError): return False\<close>.\<close>

fun except_key_type :: "error + bool \<Rightarrow> error + bool" where
  "except_key_type (Inl KeyError) = Inr False"
| "except_key_type (Inl TypeError) = Inr False"
| "except_key_type r = r"

definition FieldComparator_call ::
  "ph_store \<Rightarrow> compop \<Rightarrow> carg \<Rightarrow> carg \<Rightarrow> bool option \<Rightarrow> fact \<Rightarrow> error + bool" where
  "FieldComparator_call st op arg1 arg2 static fct =
     (case static of
        Some v \<Rightarrow> Inr v
      | None \<Rightarrow>
          except_key_type
            (case getargval st arg1 fct of
               Inl e \<Rightarrow> Inl e
             | Inr v1 \<Rightarrow>
                 (case getargval st arg2 fct of
                    Inl e \<Rightarrow> Inl e
                  | Inr v2 \<Rightarrow> apply_compop op v1 v2)))"

fun comparator_call :: "ph_store \<Rightarrow> comparator \<Rightarrow> fact \<Rightarrow> error + bool"
  and and_loop :: "ph_store \<Rightarrow> comparator list \<Rightarrow> fact \<Rightarrow> error + bool"
  and or_loop :: "ph_store \<Rightarrow> comparator list \<Rightarrow> fact \<Rightarrow> error + bool" where
  "comparator_call st (StaticComparator v) fct = Inr v"
| "comparator_call st (FieldComparator op arg1 arg2 static) fct =
     FieldComparator_call st op arg1 arg2 static fct"
| "comparator_call st (BoolComparator Op_not []) fct = Inl IndexError"
| "comparator_call st (BoolComparator Op_not (a # rest)) fct =
     (case comparator_call st a fct of
        Inl e \<Rightarrow> Inl e
      | Inr b \<Rightarrow> Inr (\<not> b))"
| "comparator_call st (BoolComparator Op_and args) fct = and_loop st args fct"
| "comparator_call st (BoolComparator Op_or args) fct = or_loop st args fct"
| "and_loop st [] fct = Inr True"
| "and_loop st (a # rest) fct =
     (case comparator_call st a fct of
        Inl e \<Rightarrow> Inl e
      | Inr b \<Rightarrow> if \<not> b then Inr False else and_loop st rest fct)"
| "or_loop st [] fct = Inr False"
| "or_loop st (a # rest) fct =
     (case comparator_call st a fct of
        Inl e \<Rightarrow> Inl e
      | Inr b \<Rightarrow> if b then Inr True else or_loop st rest fct)"

subsection \<open>Simplification\<close>

text \<open>
  \<open>_StaticComparator\<close> has no method \<open>simplified\<close> (its method is spelt
  \<open>simpified\<close>), so the call raises \<open>AttributeError\<close>; \<open>_simplify_fact_comparator\<close>
  catches every exception and then returns the comparator itself (the arguments of
  a comparator are comparators here; a bare \<open>bool\<close> argument is not modelled).

  In \<open>_BoolComparator.simplified\<close> the loop over the arguments returns early only
  for \<open>not\<close>; for \<open>and\<close> and \<open>or\<close> a static argument is not appended to
  \<open>newargs\<close> and nothing else happens (the two statements consisting of the
  expression \<open>sarg\<close> have no effect). The loop's result is either that early
  return (\<open>Inl\<close>) or the list \<open>newargs\<close> (\<open>Inr\<close>).
\<close>

fun simplified :: "comparator \<Rightarrow> error + comparator"
  and simplify_fact_comparator :: "comparator \<Rightarrow> comparator"
  and simplified_loop :: "boolop \<Rightarrow> comparator list \<Rightarrow> comparator list \<Rightarrow> comparator + comparator list" where
  "simplified (StaticComparator v) = Inl AttributeError"
| "simplified (FieldComparator op arg1 arg2 static) =
     (case static of
        Some v \<Rightarrow> Inr (StaticComparator v)
      | None \<Rightarrow> Inr (FieldComparator op arg1 arg2 static))"
| "simplified (BoolComparator bop args) =
     (case simplified_loop bop args [] of
        Inl early \<Rightarrow> Inr early
      | Inr newargs \<Rightarrow>
          (if newargs = [] \<and> bop = Op_and then Inr (StaticComparator True)
           else if newargs = [] \<and> bop = Op_or then Inr (StaticComparator False)
           else if bop \<noteq> Op_not \<and> length newargs = 1 then Inr (hd newargs)
           else BoolComparator_init bop newargs))"
| "simplify_fact_comparator c =
     (case simplified c of
        Inl e \<Rightarrow> c
      | Inr c' \<Rightarrow> c')"
| "simplified_loop bop [] newargs = Inr newargs"
| "simplified_loop bop (arg # rest) newargs =
     (case simplify_fact_comparator arg of
        StaticComparator v \<Rightarrow>
          (if bop = Op_not then Inl (StaticComparator (\<not> v))
           else simplified_loop bop rest newargs)
      | sarg \<Rightarrow> simplified_loop bop rest (newargs @ [sarg]))"

section \<open>The multimap of an index\<close>

text \<open>
  \<open>bisect.bisect_left\<close> and \<open>bisect.bisect_right\<close> of the standard library,
  with \<open>lo = 0\<close> and \<open>hi = len(a)\<close>: a binary search that compares with \<open><\<close>
  only, so it raises \<open>TypeError\<close> where the keys cannot be ordered.
\<close>

function bisect_left_loop :: "val list \<Rightarrow> val \<Rightarrow> nat \<Rightarrow> nat \<Rightarrow> error + nat" where
  "bisect_left_loop a x lo hi =
     (if lo < hi
      then (if py_lt (a ! ((lo + hi) div 2)) x = Inr True
            then bisect_left_loop a x ((lo + hi) div 2 + 1) hi
            else if py_lt (a ! ((lo + hi) div 2)) x = Inr False
            then bisect_left_loop a x lo ((lo + hi) div 2)
            else Inl TypeError)
      else Inr lo)"
  by pat_completeness auto
termination
  by (relation "measure (\<lambda>(a, x, lo, hi). hi - lo)") auto

function bisect_right_loop :: "val list \<Rightarrow> val \<Rightarrow> nat \<Rightarrow> nat \<Rightarrow> error + nat" where
  "bisect_right_loop a x lo hi =
     (if lo < hi
      then (if py_lt x (a ! ((lo + hi) div 2)) = Inr True
            then bisect_right_loop a x lo ((lo + hi) div 2)
            else if py_lt x (a ! ((lo + hi) div 2)) = Inr False
            then bisect_right_loop a x ((lo + hi) div 2 + 1) hi
            else Inl TypeError)
      else Inr lo)"
  by pat_completeness auto
termination
  by (relation "measure (\<lambda>(a, x, lo, hi). hi - lo)") auto

definition bisect_left :: "val list \<Rightarrow> val \<Rightarrow> error + nat" where
  "bisect_left a x = bisect_left_loop a x 0 (length a)"

definition bisect_right :: "val list \<Rightarrow> val \<Rightarrow> error + nat" where
  "bisect_right a x = bisect_right_loop a x 0 (length a)"

definition list_insert :: "'a list \<Rightarrow> nat \<Rightarrow> 'a \<Rightarrow> 'a list" where
  "list_insert a i x = take i a @ [x] @ drop i a"

definition insort_left :: "val list \<Rightarrow> val \<Rightarrow> error + val list" where
  "insort_left a x =
     (case bisect_left a x of
        Inl e \<Rightarrow> Inl e
      | Inr lo \<Rightarrow> Inr (list_insert a lo x))"

record MultiMap =
  keylist :: "val list"
  key2values :: "(val \<times> fact list) list"

definition MultiMap_init :: MultiMap where
  "MultiMap_init = \<lparr> keylist = [], key2values = [] \<rparr>"

definition keys_eq :: "MultiMap \<Rightarrow> val \<Rightarrow> error + val list" where
  "keys_eq self key =
     (if key \<in> set (dict_keys (key2values self)) then Inr [key] else Inr [])"

definition keys_ne :: "MultiMap \<Rightarrow> val \<Rightarrow> error + val list" where
  "keys_ne self key =
     (case bisect_left (keylist self) key of
        Inl e \<Rightarrow> Inl e
      | Inr posn1 \<Rightarrow>
          (case bisect_right (keylist self) key of
             Inl e \<Rightarrow> Inl e
           | Inr posn2 \<Rightarrow>
               Inr ((if posn1 \<noteq> 0 then take posn1 (keylist self) else []) @
                    (if posn2 \<noteq> 0 then drop posn2 (keylist self) else []))))"

definition keys_lt :: "MultiMap \<Rightarrow> val \<Rightarrow> error + val list" where
  "keys_lt self key =
     (case bisect_left (keylist self) key of
        Inl e \<Rightarrow> Inl e
      | Inr posn \<Rightarrow> if posn \<noteq> 0 then Inr (take posn (keylist self)) else Inr [])"

definition keys_le :: "MultiMap \<Rightarrow> val \<Rightarrow> error + val list" where
  "keys_le self key =
     (case bisect_right (keylist self) key of
        Inl e \<Rightarrow> Inl e
      | Inr posn \<Rightarrow> if posn \<noteq> 0 then Inr (take posn (keylist self)) else Inr [])"

definition keys_gt :: "MultiMap \<Rightarrow> val \<Rightarrow> error + val list" where
  "keys_gt self key =
     (case bisect_right (keylist self) key of
        Inl e \<Rightarrow> Inl e
      | Inr posn \<Rightarrow> if posn \<noteq> 0 then Inr (drop posn (keylist self)) else Inr [])"

definition keys_ge :: "MultiMap \<Rightarrow> val \<Rightarrow> error + val list" where
  "keys_ge self key =
     (case bisect_left (keylist self) key of
        Inl e \<Rightarrow> Inl e
      | Inr posn \<Rightarrow> if posn \<noteq> 0 then Inr (drop posn (keylist self)) else Inr [])"

fun keys_op :: "MultiMap \<Rightarrow> compop \<Rightarrow> val \<Rightarrow> error + val list" where
  "keys_op self Eq key = keys_eq self key"
| "keys_op self Ne key = keys_ne self key"
| "keys_op self Lt key = keys_lt self key"
| "keys_op self Le key = keys_le self key"
| "keys_op self Gt key = keys_gt self key"
| "keys_op self Ge key = keys_ge self key"

definition MultiMap_getitem :: "MultiMap \<Rightarrow> val \<Rightarrow> error + fact list" where
  "MultiMap_getitem self key =
     (case dict_get (key2values self) key of
        None \<Rightarrow> Inl KeyError
      | Some vs \<Rightarrow> Inr vs)"

text \<open>
  \<open>_MultiMap.__setitem__\<close>: append the fact to the key's list, then insert the key
  into the sorted key list unless it is there.
\<close>

definition MultiMap_setitem :: "MultiMap \<Rightarrow> val \<Rightarrow> fact \<Rightarrow> error + MultiMap" where
  "MultiMap_setitem self key v =
     (let old = (case dict_get (key2values self) key of None \<Rightarrow> [] | Some vs \<Rightarrow> vs);
          k2v = dict_set key (old @ [v]) (key2values self)
      in case bisect_left (keylist self) key of
           Inl e \<Rightarrow> Inl e
         | Inr posn \<Rightarrow>
             (if length (keylist self) > posn \<and> keylist self ! posn = key
              then Inr (self\<lparr> key2values := k2v \<rparr>)
              else case insort_left (keylist self) key of
                     Inl e \<Rightarrow> Inl e
                   | Inr kl \<Rightarrow> Inr (self\<lparr> keylist := kl, key2values := k2v \<rparr>)))"

section \<open>The facts of one predicate class\<close>

text \<open>
  \<open>_FactMap\<close>: the list of all facts and, when index fields were given, an ordered
  dictionary from each indexed accessor to its multimap (\<open>None\<close> otherwise).
\<close>

record FactMap =
  allfacts :: "fact list"
  mmaps :: "(Field \<times> MultiMap) list option"

definition FactMap_init :: "Field list \<Rightarrow> FactMap" where
  "FactMap_init index =
     \<lparr> allfacts = [],
       mmaps = (if length index = 0 then None
                else Some (fold (\<lambda>f d. dict_set f MultiMap_init d) index [])) \<rparr>"

fun add_loop :: "(Field \<times> MultiMap) list \<Rightarrow> fact \<Rightarrow> error + (Field \<times> MultiMap) list" where
  "add_loop [] fct = Inr []"
| "add_loop (fm # rest) fct =
     (case Field_get (fst fm) fct of
        Inl e \<Rightarrow> Inl e
      | Inr key \<Rightarrow>
          (case MultiMap_setitem (snd fm) key fct of
             Inl e \<Rightarrow> Inl e
           | Inr mmap \<Rightarrow>
               (case add_loop rest fct of
                  Inl e \<Rightarrow> Inl e
                | Inr rest' \<Rightarrow> Inr ((fst fm, mmap) # rest'))))"

definition FactMap_add :: "FactMap \<Rightarrow> fact \<Rightarrow> error + FactMap" where
  "FactMap_add self fct =
     (case mmaps self of
        None \<Rightarrow> Inr (self\<lparr> allfacts := allfacts self @ [fct] \<rparr>)
      | Some ms \<Rightarrow>
          (case add_loop ms fct of
             Inl e \<Rightarrow> Inl e
           | Inr ms' \<Rightarrow> Inr (self\<lparr> allfacts := allfacts self @ [fct], mmaps := Some ms' \<rparr>)))"

fun FactMap_add_all :: "FactMap \<Rightarrow> fact list \<Rightarrow> error + FactMap" where
  "FactMap_add_all self [] = Inr self"
| "FactMap_add_all self (f # fs) =
     (case FactMap_add self f of
        Inl e \<Rightarrow> Inl e
      | Inr self' \<Rightarrow> FactMap_add_all self' fs)"

definition indexed_fields :: "FactMap \<Rightarrow> Field list" where
  "indexed_fields self = (case mmaps self of None \<Rightarrow> [] | Some ms \<Rightarrow> dict_keys ms)"

definition get_facts_multimap :: "FactMap \<Rightarrow> Field \<Rightarrow> error + MultiMap" where
  "get_facts_multimap self field =
     (case mmaps self of
        None \<Rightarrow> Inl TypeError
      | Some ms \<Rightarrow>
          (case dict_get ms field of
             None \<Rightarrow> Inl KeyError
           | Some mmap \<Rightarrow> Inr mmap))"

definition get_all_facts :: "FactMap \<Rightarrow> fact list" where
  "get_all_facts self = allfacts self"

definition FactMap_clear :: "FactMap \<Rightarrow> FactMap" where
  "FactMap_clear self =
     self\<lparr> allfacts := [],
           mmaps := (case mmaps self of
                       None \<Rightarrow> None
                     | Some ms \<Rightarrow> Some (map (\<lambda>fm. (fst fm, MultiMap_init)) ms)) \<rparr>"

section \<open>Queries\<close>

text \<open>
  \<open>_FieldComparator.indexable\<close>: the triple of accessor, operator and other side
  of a comparator that is not static, has an accessor on the left and none on the
  right.
\<close>

type_synonym indexable = "Field \<times> compop \<times> carg"

fun FieldComparator_indexable :: "compop \<Rightarrow> carg \<Rightarrow> carg \<Rightarrow> bool option \<Rightarrow> indexable option" where
  "FieldComparator_indexable op arg1 arg2 (Some v) = None"
| "FieldComparator_indexable op (AField f) (AField g) None = None"
| "FieldComparator_indexable op (AField f) arg2 None = Some (f, op, arg2)"
| "FieldComparator_indexable op arg1 arg2 None = None"

fun FieldComparator_placeholders :: "carg \<Rightarrow> carg \<Rightarrow> placeholder list" where
  "FieldComparator_placeholders arg1 arg2 =
     (case arg1 of APlaceholder p \<Rightarrow> [p] | _ \<Rightarrow> []) @
     (case arg2 of APlaceholder p \<Rightarrow> [p] | _ \<Rightarrow> [])"

text \<open>
  \<open>_Select\<close>: the dictionary \<open>_index_priority\<close> from each indexed accessor to its
  position among the indexed fields, the simplified where clause, the chosen
  indexable triple and the dictionary from placeholder name to placeholder. The
  query refers to a live \<open>_FactMap\<close>, which \<open>Select_get\<close> takes as an argument.
\<close>

record Select =
  index_priority :: "(Field \<times> nat) list"
  sel_where :: "comparator option"
  sel_indexable :: "indexable option"
  name_to_ph :: "(val \<times> placeholder) list"

definition Select_init :: "FactMap \<Rightarrow> Select" where
  "Select_init fm =
     \<lparr> index_priority =
         fold (\<lambda>pf d. dict_set (snd pf) (fst pf) d) (enumerate 0 (indexed_fields fm)) [],
       sel_where = None,
       sel_indexable = None,
       name_to_ph = [] \<rparr>"

definition FactMap_select :: "FactMap \<Rightarrow> Select" where
  "FactMap_select self = Select_init self"

definition validate_indexable :: "(Field \<times> nat) list \<Rightarrow> indexable option \<Rightarrow> indexable option" where
  "validate_indexable prio ix =
     (case ix of
        None \<Rightarrow> None
      | Some t \<Rightarrow> if fst t \<notin> set (dict_keys prio) then None else Some t)"

definition priority_of :: "(Field \<times> nat) list \<Rightarrow> Field \<Rightarrow> error + nat" where
  "priority_of prio f = (case dict_get prio f of None \<Rightarrow> Inl KeyError | Some p \<Rightarrow> Inr p)"

text \<open>
  \<open>_primary_search\<close>. The loop over the arguments of an \<open>and\<close> carries the
  variable \<open>indexable\<close>; a lookup in \<open>_index_priority\<close> raises \<open>KeyError\<close> on a
  missing key.
\<close>

fun primary_search :: "(Field \<times> nat) list \<Rightarrow> comparator \<Rightarrow> error + indexable option"
  and primary_search_loop ::
    "(Field \<times> nat) list \<Rightarrow> comparator list \<Rightarrow> indexable option \<Rightarrow> error + indexable option" where
  "primary_search prio (FieldComparator op arg1 arg2 static) =
     Inr (validate_indexable prio (FieldComparator_indexable op arg1 arg2 static))"
| "primary_search prio (BoolComparator Op_and args) = primary_search_loop prio args None"
| "primary_search prio (BoolComparator Op_or args) = Inr None"
| "primary_search prio (BoolComparator Op_not args) = Inr None"
| "primary_search prio (StaticComparator v) = Inr None"
| "primary_search_loop prio [] ix = Inr ix"
| "primary_search_loop prio (arg # rest) ix =
     (case primary_search prio arg of
        Inl e \<Rightarrow> Inl e
      | Inr None \<Rightarrow> primary_search_loop prio rest ix
      | Inr (Some tmp) \<Rightarrow>
          (case ix of
             None \<Rightarrow> primary_search_loop prio rest (Some tmp)
           | Some cur \<Rightarrow>
               (case priority_of prio (fst tmp) of
                  Inl e \<Rightarrow> Inl e
                | Inr pt \<Rightarrow>
                    (case priority_of prio (fst cur) of
                       Inl e \<Rightarrow> Inl e
                     | Inr pc \<Rightarrow>
                         if pt < pc then primary_search_loop prio rest (Some tmp)
                         else primary_search_loop prio rest ix))))"

definition primary_search_where :: "(Field \<times> nat) list \<Rightarrow> comparator option \<Rightarrow> error + indexable option" where
  "primary_search_where prio w = (case w of None \<Rightarrow> Inr None | Some c \<Rightarrow> primary_search prio c)"

fun get_placeholders :: "comparator \<Rightarrow> placeholder list"
  and get_placeholders_loop :: "comparator list \<Rightarrow> placeholder list" where
  "get_placeholders (FieldComparator op arg1 arg2 static) = FieldComparator_placeholders arg1 arg2"
| "get_placeholders (BoolComparator bop args) = get_placeholders_loop args"
| "get_placeholders (StaticComparator v) = []"
| "get_placeholders_loop [] = []"
| "get_placeholders_loop (arg # rest) = get_placeholders arg @ get_placeholders_loop rest"

definition get_placeholders_where :: "comparator option \<Rightarrow> placeholder list" where
  "get_placeholders_where w = (case w of None \<Rightarrow> [] | Some c \<Rightarrow> get_placeholders c)"

text \<open>\<open>_Select.where\<close>; a comparator object is truthy, \<open>None\<close> is not.\<close>

definition Select_where :: "Select \<Rightarrow> comparator list \<Rightarrow> error + Select" where
  "Select_where self expressions =
     (if sel_where self \<noteq> None then Inl (ValueError ''trying to specify multiple where clauses'')
      else case (if expressions = [] then Inr None
                 else if length expressions = 1
                 then Inr (Some (simplify_fact_comparator (hd expressions)))
                 else (case and_f expressions of
                         Inl e \<Rightarrow> Inl e
                       | Inr c \<Rightarrow> Inr (Some (simplify_fact_comparator c)))) of
             Inl e \<Rightarrow> Inl e
           | Inr w \<Rightarrow>
               (case primary_search_where (index_priority self) w of
                  Inl e \<Rightarrow> Inl e
                | Inr ix \<Rightarrow>
                    Inr (self\<lparr> sel_where := w,
                               sel_indexable := ix,
                               name_to_ph := fold (\<lambda>p d. dict_set (ph_name p) p d)
                                               (get_placeholders_where w) [] \<rparr>)))"

subsection \<open>Binding the placeholders\<close>

text \<open>
  Keyword names are strings; a placeholder's name is any value (the positional
  placeholders are named by the integers 0 to 3). \<open>kwargs.get(n, None)\<close>:
\<close>

definition kwargs_get :: "(string \<times> val) list \<Rightarrow> val \<Rightarrow> val" where
  "kwargs_get kwargs n =
     (case n of
        StrV s \<Rightarrow> (case dict_get kwargs s of None \<Rightarrow> NoneV | Some v \<Rightarrow> v)
      | _ \<Rightarrow> NoneV)"

text \<open>
  The two loops of \<open>_set_placeholder_values\<close>. Each returns the store as the loop
  left it, together with the exception if one was raised.
\<close>

fun bind_positional ::
  "(val \<times> placeholder) list \<Rightarrow> val list \<Rightarrow> nat \<Rightarrow> ph_store \<Rightarrow> error option \<times> ph_store" where
  "bind_positional n2p [] idx st = (None, st)"
| "bind_positional n2p (arg # rest) idx st =
     (case dict_get n2p (IntV (int idx)) of
        None \<Rightarrow> (Some (ValueError ''no placeholder for positional argument index''), st)
      | Some p \<Rightarrow> bind_positional n2p rest (Suc idx) (ph_set_value p arg st))"

fun bind_keywords ::
  "(val \<times> placeholder) list \<Rightarrow> (string \<times> val) list \<Rightarrow> ph_store \<Rightarrow> error option \<times> ph_store" where
  "bind_keywords [] kwargs st = (None, st)"
| "bind_keywords (np # rest) kwargs st =
     (let v = kwargs_get kwargs (fst np);
          st' = (if v = NoneV then ph_reset (snd np) st else ph_set_value (snd np) v st)
      in if ph_value (snd np) st' = NoneV
         then (Some (ValueError ''no value for placeholder''), st')
         else bind_keywords rest kwargs st')"

definition set_placeholder_values ::
  "Select \<Rightarrow> val list \<Rightarrow> (string \<times> val) list \<Rightarrow> ph_store \<Rightarrow> error option \<times> ph_store" where
  "set_placeholder_values self args kwargs st =
     (if name_to_ph self = [] \<and> kwargs = [] \<and> args = [] then (None, st)
      else if args \<noteq> [] \<and> kwargs \<noteq> []
      then (Some (ValueError ''cannot specify both positional and keyword arguments''), st)
      else if args \<noteq> []
      then (if length args \<noteq> length (name_to_ph self)
            then (Some (ValueError ''Mismatch in the number of placeholder arguments''), st)
            else bind_positional (name_to_ph self) args 0 st)
      else if list_ex (\<lambda>n. name_to_ph self = [] \<or> StrV n \<notin> set (dict_keys (name_to_ph self)))
                (dict_keys kwargs)
      then (Some (ValueError ''unknown placeholder name''), st)
      else bind_keywords (name_to_ph self) kwargs st)"

subsection \<open>Running the query\<close>

text \<open>
  \<open>get_value\<close> resolves the other side of the indexable triple, which
  \<open>indexable\<close> never lets be an accessor.
\<close>

definition get_value :: "ph_store \<Rightarrow> carg \<Rightarrow> error + val" where
  "get_value st v =
     (case v of
        APlaceholder p \<Rightarrow> Inr (ph_value p st)
      | AValue x \<Rightarrow> Inr x
      | AField f \<Rightarrow> Inl TypeError)"

text \<open>
  \<open>_Select.get\<close> is a generator; the functions below give the list of everything
  it yields when it is run to its end, or the exception that ends it.
\<close>

fun where_filter :: "ph_store \<Rightarrow> comparator \<Rightarrow> fact list \<Rightarrow> error + fact list" where
  "where_filter st w [] = Inr []"
| "where_filter st w (f # fs) =
     (case comparator_call st w f of
        Inl e \<Rightarrow> Inl e
      | Inr b \<Rightarrow>
          (case where_filter st w fs of
             Inl e \<Rightarrow> Inl e
           | Inr out \<Rightarrow> Inr (if b then f # out else out)))"

definition full_scan :: "ph_store \<Rightarrow> comparator option \<Rightarrow> FactMap \<Rightarrow> error + fact list" where
  "full_scan st w fm =
     (case w of
        None \<Rightarrow> Inr (get_all_facts fm)
      | Some c \<Rightarrow> where_filter st c (get_all_facts fm))"

fun index_loop :: "ph_store \<Rightarrow> comparator option \<Rightarrow> MultiMap \<Rightarrow> val list \<Rightarrow> error + fact list" where
  "index_loop st w mmap [] = Inr []"
| "index_loop st w mmap (key # keys) =
     (case MultiMap_getitem mmap key of
        Inl e \<Rightarrow> Inl e
      | Inr fs \<Rightarrow>
          (case (case w of None \<Rightarrow> (if fs = [] then Inr [] else Inl TypeError)
                        | Some c \<Rightarrow> where_filter st c fs) of
             Inl e \<Rightarrow> Inl e
           | Inr out \<Rightarrow>
               (case index_loop st w mmap keys of
                  Inl e \<Rightarrow> Inl e
                | Inr out' \<Rightarrow> Inr (out @ out'))))"

definition index_scan :: "ph_store \<Rightarrow> comparator option \<Rightarrow> FactMap \<Rightarrow> indexable \<Rightarrow> error + fact list" where
  "index_scan st w fm ix =
     (case get_facts_multimap fm (fst ix) of
        Inl e \<Rightarrow> Inl e
      | Inr mmap \<Rightarrow>
          (case get_value st (snd (snd ix)) of
             Inl e \<Rightarrow> Inl e
           | Inr key \<Rightarrow>
               (case keys_op mmap (fst (snd ix)) key of
                  Inl e \<Rightarrow> Inl e
                | Inr keys \<Rightarrow> index_loop st w mmap keys)))"

definition Select_get ::
  "Select \<Rightarrow> FactMap \<Rightarrow> val list \<Rightarrow> (string \<times> val) list \<Rightarrow> ph_store \<Rightarrow> (error + fact list) \<times> ph_store" where
  "Select_get self fm args kwargs st =
     (case set_placeholder_values self args kwargs st of
        (Some e, st') \<Rightarrow> (Inl e, st')
      | (None, st') \<Rightarrow>
          (case sel_indexable self of
             None \<Rightarrow> (full_scan st' (sel_where self) fm, st')
           | Some ix \<Rightarrow> (index_scan st' (sel_where self) fm ix, st')))"

section \<open>The fact base\<close>

text \<open>
  \<open>FactBase\<close>: a dictionary from predicate class to its \<open>_FactMap\<close>. The
  constructor groups the index fields by their parent class; \<open>add\<close> and \<open>select\<close>
  create the map of a class on first use. A query made by \<open>select\<close> refers to the
  map of its class, which \<open>factmap_of\<close> reads from the current fact base.
\<close>

record FactBase =
  factmaps :: "(nat \<times> FactMap) list"

definition FactBase_init :: "Field list \<Rightarrow> FactBase" where
  "FactBase_init index =
     (let grouped = fold (\<lambda>f d. dict_set (parent f)
                             ((case dict_get d (parent f) of None \<Rightarrow> [] | Some fs \<Rightarrow> fs) @ [f]) d)
                         index []
      in \<lparr> factmaps = map (\<lambda>g. (fst g, FactMap_init (snd g))) grouped \<rparr>)"

definition factmap_of :: "FactBase \<Rightarrow> nat \<Rightarrow> FactMap" where
  "factmap_of self predicate_cls =
     (case dict_get (factmaps self) predicate_cls of
        None \<Rightarrow> FactMap_init []
      | Some fm \<Rightarrow> fm)"

definition FactBase_add1 :: "FactBase \<Rightarrow> fact \<Rightarrow> error + FactBase" where
  "FactBase_add1 self fct =
     (case FactMap_add (factmap_of self (fact_class fct)) fct of
        Inl e \<Rightarrow> Inl e
      | Inr fm \<Rightarrow> Inr (self\<lparr> factmaps := dict_set (fact_class fct) fm (factmaps self) \<rparr>))"

fun FactBase_add :: "FactBase \<Rightarrow> fact list \<Rightarrow> error + FactBase" where
  "FactBase_add self [] = Inr self"
| "FactBase_add self (f # fs) =
     (case FactBase_add1 self f of
        Inl e \<Rightarrow> Inl e
      | Inr self' \<Rightarrow> FactBase_add self' fs)"

definition FactBase_select :: "FactBase \<Rightarrow> nat \<Rightarrow> FactBase \<times> Select" where
  "FactBase_select self predicate_cls =
     (self\<lparr> factmaps := (if predicate_cls \<notin> set (dict_keys (factmaps self))
                          then dict_set predicate_cls (FactMap_init []) (factmaps self)
                          else factmaps self) \<rparr>,
      FactMap_select (factmap_of self predicate_cls))"

section \<open>The schema of the scenarios\<close>

text \<open>
  \<open>class Point(Predicate): x = IntegerField(); y = IntegerField()\<close>, its two
  accessors, and the three facts of the scenario.
\<close>

definition Point :: nls_class where
  "Point = \<lparr> class_id = 0,
             meta = \<lparr> meta_name = ''point'',
                      field_defns = [(''x'', IntegerField None None NoneV),
                                     (''y'', IntegerField None None NoneV)] \<rparr> \<rparr>"

definition Point_x :: Field where
  "Point_x = \<lparr> no_setter = True, field_name = ''x'', field_index = 0, parent = 0 \<rparr>"

definition Point_y :: Field where
  "Point_y = \<lparr> no_setter = True, field_name = ''y'', field_index = 1, parent = 0 \<rparr>"

definition point :: "int \<Rightarrow> int \<Rightarrow> fact" where
  "point a b = \<lparr> fact_class = 0, field_values = [(''x'', IntV a), (''y'', IntV b)],
                 symbol_attr = Some (Function ''point'' [Number a, Number b]) \<rparr>"

text \<open>The store in which no placeholder has a value yet.\<close>

definition no_values :: ph_store where
  "no_values = (\<lambda>i. NoneV)"

text \<open>
  The fact map of \<open>Point\<close> indexed on \<open>x\<close> after the three facts were added, and
  the comparators \<open>Point.x > v\<close>, \<open>Point.x == Point.x\<close> and \<open>Point.x != Point.x\<close>
  as the accessor's operators build them.
\<close>

definition points_index :: MultiMap where
  "points_index = \<lparr> keylist = [IntV 1, IntV 2, IntV 3],
                     key2values = [(IntV 1, [point 1 1]), (IntV 2, [point 2 4]),
                                   (IntV 3, [point 3 9])] \<rparr>"

definition points_map :: FactMap where
  "points_map = \<lparr> allfacts = [point 1 1, point 2 4, point 3 9],
                   mmaps = Some [(Point_x, points_index)] \<rparr>"

definition x_gt :: "int \<Rightarrow> comparator" where
  "x_gt v = FieldComparator Gt (AField Point_x) (AValue (IntV v)) None"

definition x_eq_x :: comparator where
  "x_eq_x = FieldComparator Eq (AField Point_x) (AField Point_x) (Some True)"

definition x_ne_x :: comparator where
  "x_ne_x = FieldComparator Ne (AField Point_x) (AField Point_x) (Some False)"

text \<open>
  \<open>class Counter(Predicate): n = IntegerField(default=0)\<close> and
  \<open>class Item(Predicate): name = ConstantField()\<close>.
\<close>

definition Counter :: nls_class where
  "Counter = \<lparr> class_id = 1,
               meta = \<lparr> meta_name = ''counter'',
                        field_defns = [(''n'', IntegerField None None (IntV 0))] \<rparr> \<rparr>"

definition Item :: nls_class where
  "Item = \<lparr> class_id = 2,
            meta = \<lparr> meta_name = ''item'',
                     field_defns = [(''name'', ConstantField None None NoneV)] \<rparr> \<rparr>"

section \<open>Drivable leaves, as the specification describes them\<close>

text \<open>
  The specification's words for index selection, to be compared with
  \<open>primary_search\<close>: a drivable leaf is a field comparison that is not static,
  whose accessor (the left side, where the accessor's operators put it) is an indexed
  field and whose other side is a placeholder or a value. The leaves that count are
  the comparator itself, or those reached from a top-level \<open>and\<close> through \<open>and\<close>
  nodes only, in child order.
\<close>

fun drivable_leaves :: "(Field \<times> nat) list \<Rightarrow> comparator \<Rightarrow> indexable list"
  and drivable_leaves_list :: "(Field \<times> nat) list \<Rightarrow> comparator list \<Rightarrow> indexable list" where
  "drivable_leaves prio (FieldComparator op (AField f) (APlaceholder p) None) =
     (if f \<in> set (dict_keys prio) then [(f, op, APlaceholder p)] else [])"
| "drivable_leaves prio (FieldComparator op (AField f) (AValue v) None) =
     (if f \<in> set (dict_keys prio) then [(f, op, AValue v)] else [])"
| "drivable_leaves prio (FieldComparator op arg1 arg2 static) = []"
| "drivable_leaves prio (BoolComparator Op_and args) = drivable_leaves_list prio args"
| "drivable_leaves prio (BoolComparator Op_or args) = []"
| "drivable_leaves prio (BoolComparator Op_not args) = []"
| "drivable_leaves prio (StaticComparator v) = []"
| "drivable_leaves_list prio [] = []"
| "drivable_leaves_list prio (arg # rest) =
     drivable_leaves prio arg @ drivable_leaves_list prio rest"

text \<open>
  \<open>first_lowest prio cs r\<close>: \<open>r\<close> is the choice among the leaves \<open>cs\<close>: none when
  there is no leaf, and otherwise the first leaf of \<open>cs\<close> that has the lowest priority
  number.
\<close>

definition first_lowest :: "(Field \<times> nat) list \<Rightarrow> indexable list \<Rightarrow> indexable option \<Rightarrow> bool" where
  "first_lowest prio cs r =
     (case r of
        None \<Rightarrow> cs = []
      | Some t \<Rightarrow>
          (\<exists>p. dict_get prio (fst t) = Some p \<and>
               list_all (\<lambda>c. \<exists>q. dict_get prio (fst c) = Some q \<and> p \<le> q) cs \<and>
               find (\<lambda>c. dict_get prio (fst c) = Some p) cs = Some t))"

definition y_eq :: "int \<Rightarrow> comparator" where
  "y_eq v = FieldComparator Eq (AField Point_y) (AValue (IntV v)) None"

definition x_lt :: "int \<Rightarrow> comparator" where
  "x_lt v = FieldComparator Lt (AField Point_x) (AValue (IntV v)) None"


text \<open>
  The query \<open>select(Point).where(Point.x == p)\<close> over the indexed partition, and
  the placeholders \<open>ph_("a", 2)\<close> and \<open>ph_("b")\<close>.
\<close>

definition x_eq_ph :: "placeholder \<Rightarrow> comparator" where
  "x_eq_ph p = FieldComparator Eq (AField Point_x) (APlaceholder p) None"




text \<open>
  A field definition accepts its own encodings when \<open>unifies\<close> holds of every
  symbol that \<open>pytocl\<close> returns, the empty tuple \<open>()\<close> apart (the symbol
  \<open>clingo.Function("", [])\<close>, which \<open>constant_pytocl\<close> makes of the empty name).
\<close>

definition accepts_own_encodings :: "field_defn \<Rightarrow> bool" where
  "accepts_own_encodings d = (\<forall>v s. pytocl d v = Inr s \<and> s \<noteq> Function [] [] \<longrightarrow> unifies d s)"

section \<open>Evaluation of the scenarios\<close>

lemmas field_defn_simps =
  IntegerField_def StringField_def ConstantField_def SimpleField_def

lemmas dict_simps = dict_keys_def dict_get_def

lemmas point_simps = Point_def Point_x_def Point_y_def point_def

lemma field_accessors_Point: "field_accessors Point = [Point_x, Point_y]"
  by (simp add: field_accessors_def point_simps enumerate_eq_zip)

lemma Point_positional: "nls_constructor Point [IntV a, IntV b] [] = Inr (point a b)"
  by (simp add: nls_constructor_def nls_init_by_positional_values_def generate_symbol_def
      point_simps field_defn_simps dict_simps)

lemma Point_keywords:
  "nls_constructor Point [] [(''x'', IntV a), (''y'', IntV b)] = Inr (point a b)"
  by (simp add: nls_constructor_def nls_init_by_keyword_values_def generate_symbol_def
      point_simps field_defn_simps dict_simps)

lemma symbol_of_point: "symbol_of Point (point a b) = Inr (Function ''point'' [Number a, Number b])"
  by (simp add: symbol_of_def generate_symbol_def point_simps field_defn_simps dict_simps)

lemma add_three_points:
  "FactMap_add_all (FactMap_init [Point_x]) [point 1 1, point 2 4, point 3 9] = Inr points_map"
  by (simp add: FactMap_init_def FactMap_add_def MultiMap_init_def MultiMap_setitem_def
      bisect_left_def insort_left_def list_insert_def points_map_def points_index_def
      Field_get_def point_simps dict_simps)

lemma factbase_three_points:
  "FactBase_add (FactBase_init [Point_x]) [point 1 1, point 2 4, point 3 9] =
     Inr \<lparr> factmaps = [(0, points_map)] \<rparr>"
  by (simp add: FactBase_init_def FactBase_add1_def factmap_of_def
      FactMap_init_def FactMap_add_def MultiMap_init_def MultiMap_setitem_def
      bisect_left_def insort_left_def list_insert_def points_map_def points_index_def
      Field_get_def point_simps dict_simps)

lemma select_priority: "index_priority (FactMap_select points_map) = [(Point_x, 0)]"
  by (simp add: FactMap_select_def Select_init_def indexed_fields_def points_map_def
      dict_simps enumerate_eq_zip)

lemma Point_x_gt: "Field_compare Gt Point_x (AValue (IntV v)) = Inr (x_gt v)"
  by (simp add: Field_compare_def FieldComparator_init_def x_gt_def)

lemma Point_x_eq_x: "Field_compare Eq Point_x (AField Point_x) = Inr x_eq_x"
  by (simp add: Field_compare_def FieldComparator_init_def x_eq_x_def)

lemma Point_x_ne_x: "Field_compare Ne Point_x (AField Point_x) = Inr x_ne_x"
  by (simp add: Field_compare_def FieldComparator_init_def x_ne_x_def)

lemma where_x_gt:
  "Select_where (FactMap_select points_map) [x_gt v] =
     Inr \<lparr> index_priority = [(Point_x, 0)], sel_where = Some (x_gt v),
           sel_indexable = Some (Point_x, Gt, AValue (IntV v)), name_to_ph = [] \<rparr>"
  by (simp add: Select_where_def FactMap_select_def Select_init_def indexed_fields_def
      points_map_def primary_search_where_def validate_indexable_def
      get_placeholders_where_def x_gt_def dict_simps enumerate_eq_zip)

text \<open>
  C1 (the code fails the claim). The partition of \<open>Point\<close> is indexed on \<open>x\<close> and
  holds the facts (1,1), (2,4), (3,9). The query \<open>Point.x > 0\<close> is driven by the
  index. \<open>keys_gt\<close> finds position 0 for the key 0 and, because 0 is falsy, returns
  no key where all three stand in the relation; the query yields nothing, while the
  scan of the fact list with the same comparator yields the three facts. \<open>keys_ge\<close>
  and \<open>keys_ne\<close> lose the keys in the same way.
\<close>

theorem index_lookup_loses_keys_at_position_zero:
  "FactMap_add_all (FactMap_init [Point_x]) [point 1 1, point 2 4, point 3 9] = Inr points_map \<and>
   get_facts_multimap points_map Point_x = Inr points_index \<and>
   Field_compare Gt Point_x (AValue (IntV 0)) = Inr (x_gt 0) \<and>
   keys_op points_index Gt (IntV 0) = Inr [] \<and>
   keys_op points_index Ge (IntV 1) = Inr [] \<and>
   keys_op points_index Ne (IntV 0) = Inr [] \<and>
   (case Select_where (FactMap_select points_map) [x_gt 0] of
      Inl e \<Rightarrow> False
    | Inr q \<Rightarrow>
        sel_indexable q = Some (Point_x, Gt, AValue (IntV 0)) \<and>
        fst (Select_get q points_map [] [] no_values) = Inr [] \<and>
        full_scan no_values (sel_where q) points_map =
          Inr [point 1 1, point 2 4, point 3 9])"
proof -
  have k1: "keys_op points_index Gt (IntV 0) = Inr []"
    by (simp add: keys_gt_def bisect_right_def points_index_def)
  have k2: "keys_op points_index Ge (IntV 1) = Inr []"
    by (simp add: keys_ge_def bisect_left_def points_index_def)
  have k3: "keys_op points_index Ne (IntV 0) = Inr []"
    by (simp add: keys_ne_def bisect_left_def bisect_right_def points_index_def)
  have g: "index_scan no_values (Some (x_gt 0)) points_map (Point_x, Gt, AValue (IntV 0)) = Inr []"
    using k1 by (simp add: index_scan_def get_facts_multimap_def get_value_def
        points_map_def dict_simps)
  have s: "full_scan no_values (Some (x_gt 0)) points_map =
      Inr [point 1 1, point 2 4, point 3 9]"
    by (simp add: full_scan_def get_all_facts_def points_map_def x_gt_def
        FieldComparator_call_def Field_get_def point_simps dict_simps)
  have m: "get_facts_multimap points_map Point_x = Inr points_index"
    by (simp add: get_facts_multimap_def points_map_def dict_simps)
  have q: "(case Select_where (FactMap_select points_map) [x_gt 0] of
      Inl e \<Rightarrow> False
    | Inr q \<Rightarrow>
        sel_indexable q = Some (Point_x, Gt, AValue (IntV 0)) \<and>
        fst (Select_get q points_map [] [] no_values) = Inr [] \<and>
        full_scan no_values (sel_where q) points_map =
          Inr [point 1 1, point 2 4, point 3 9])"
    using g s by (simp add: where_x_gt Select_get_def set_placeholder_values_def)
  show ?thesis
    using add_three_points m Point_x_gt[of 0] k1 k2 k3 q by blast
qed

text \<open>
  C2 (the code fails the claim). For \<open>C = and_(Point.x != Point.x, Point.x > 1)\<close>
  and the fact (2,4): \<open>C\<close> is false on the fact, because its first argument is the
  static value false. Simplification drops that argument without returning the
  static value, the single remaining argument \<open>Point.x > 1\<close> becomes the
  result, and it is true on the fact.
\<close>

theorem simplified_changes_the_value:
  "Field_compare Ne Point_x (AField Point_x) = Inr x_ne_x \<and>
   Field_compare Gt Point_x (AValue (IntV 1)) = Inr (x_gt 1) \<and>
   and_f [x_ne_x, x_gt 1] = Inr (BoolComparator Op_and [x_ne_x, x_gt 1]) \<and>
   comparator_call st (BoolComparator Op_and [x_ne_x, x_gt 1]) (point 2 4) = Inr False \<and>
   simplify_fact_comparator (BoolComparator Op_and [x_ne_x, x_gt 1]) = x_gt 1 \<and>
   comparator_call st (simplify_fact_comparator (BoolComparator Op_and [x_ne_x, x_gt 1]))
     (point 2 4) = Inr True"
proof -
  have e: "simplify_fact_comparator (BoolComparator Op_and [x_ne_x, x_gt 1]) = x_gt 1"
    by (simp add: x_ne_x_def x_gt_def)
  have c: "comparator_call st (x_gt 1) (point 2 4) = Inr True"
    by (simp add: x_gt_def FieldComparator_call_def Field_get_def point_simps dict_simps)
  have a: "comparator_call st (BoolComparator Op_and [x_ne_x, x_gt 1]) (point 2 4) = Inr False"
    by (simp add: x_ne_x_def FieldComparator_call_def)
  show ?thesis
    using e c a by (simp add: and_f_def BoolComparator_init_def Point_x_ne_x Point_x_gt)
qed

text \<open>
  C3 (the code fails the claim). A static false argument of an \<open>and\<close> and a static
  true argument of an \<open>or\<close> do not fold the node: \<open>or_(Point.x == Point.x,
  Point.x > 1)\<close> simplifies to \<open>Point.x > 1\<close>, not to the static value true, and
  \<open>and_(Point.x != Point.x, Point.x > 1)\<close> simplifies to \<open>Point.x > 1\<close>, not to the
  static value false; the same holds when the arguments are static comparators
  already. Two static false arguments of an \<open>and\<close> even give the static value
  true. The part of the claim about \<open>and_(true, Point.x > 1)\<close> holds.
\<close>

theorem simplified_does_not_short_circuit:
  "Field_compare Eq Point_x (AField Point_x) = Inr x_eq_x \<and>
   or_f [x_eq_x, x_gt 1] = Inr (BoolComparator Op_or [x_eq_x, x_gt 1]) \<and>
   simplify_fact_comparator (BoolComparator Op_or [x_eq_x, x_gt 1]) = x_gt 1 \<and>
   simplify_fact_comparator (BoolComparator Op_or [StaticComparator True, x_gt 1]) = x_gt 1 \<and>
   simplify_fact_comparator (BoolComparator Op_and [x_ne_x, x_gt 1]) = x_gt 1 \<and>
   simplify_fact_comparator (BoolComparator Op_and [StaticComparator False, x_gt 1]) = x_gt 1 \<and>
   simplify_fact_comparator (BoolComparator Op_and [StaticComparator False, StaticComparator False])
     = StaticComparator True \<and>
   simplify_fact_comparator (BoolComparator Op_and [StaticComparator True, x_gt 1]) = x_gt 1"
  by (simp add: Point_x_eq_x or_f_def BoolComparator_init_def)
     (simp add: x_eq_x_def x_ne_x_def x_gt_def)

text \<open>
  C4 (the code fails the claim). The accessor's \<open>__set__\<close> raises only when
  \<open>_no_setter\<close> is false, and every accessor is created with \<open>_no_setter\<close> true.
  Assigning 5 to the field \<open>x\<close> of the fact (1,2), by name or by position,
  succeeds and changes the stored value and the symbol of the fact.
\<close>

theorem field_assignment_succeeds:
  "nls_constructor Point [IntV 1, IntV 2] [] = Inr (point 1 2) \<and>
   Field_set Point_x (point 1 2) (IntV 5) =
     Inr ((point 1 2)\<lparr> field_values := [(''x'', IntV 5), (''y'', IntV 2)] \<rparr>) \<and>
   nls_setitem Point (point 1 2) 0 (IntV 5) =
     Inr ((point 1 2)\<lparr> field_values := [(''x'', IntV 5), (''y'', IntV 2)] \<rparr>) \<and>
   symbol_of Point (point 1 2) = Inr (Function ''point'' [Number 1, Number 2]) \<and>
   symbol_of Point ((point 1 2)\<lparr> field_values := [(''x'', IntV 5), (''y'', IntV 2)] \<rparr>) =
     Inr (Function ''point'' [Number 5, Number 2])"
proof -
  have s: "Field_set Point_x (point 1 2) (IntV 5) =
      Inr ((point 1 2)\<lparr> field_values := [(''x'', IntV 5), (''y'', IntV 2)] \<rparr>)"
    by (simp add: Field_set_def point_simps)
  have i: "nls_setitem Point (point 1 2) 0 (IntV 5) = Field_set Point_x (point 1 2) (IntV 5)"
    by (simp add: nls_setitem_def tuple_item_def field_accessors_Point)
  have y: "symbol_of Point ((point 1 2)\<lparr> field_values := [(''x'', IntV 5), (''y'', IntV 2)] \<rparr>) =
      Inr (Function ''point'' [Number 5, Number 2])"
    by (simp add: symbol_of_def generate_symbol_def point_simps field_defn_simps dict_simps)
  show ?thesis
    using s i y by (simp add: symbol_of_point Point_positional)
qed

text \<open>
  C5 (the code fails the claim). \<open>Point(1)\<close> gives one positional argument to a
  class of arity 2. The initialiser returns the \<open>ValueError\<close> object instead of
  raising it, so the constructor returns a fact with no field values and no symbol;
  asking that fact for its symbol raises \<open>KeyError\<close>.
\<close>

theorem positional_arity_mismatch_returns_a_fact:
  "nls_constructor Point [IntV 1] [] =
     Inr \<lparr> fact_class = 0, field_values = [], symbol_attr = None \<rparr> \<and>
   nls_constructor Point [IntV 1, IntV 2, IntV 3] [] =
     Inr \<lparr> fact_class = 0, field_values = [], symbol_attr = None \<rparr> \<and>
   symbol_of Point \<lparr> fact_class = 0, field_values = [], symbol_attr = None \<rparr> = Inl KeyError"
  by (simp add: nls_constructor_def nls_init_by_positional_values_def symbol_of_def
      generate_symbol_def point_simps dict_simps)

text \<open>
  C6 (the code fails the claim). The field \<open>n\<close> of \<open>Counter\<close> declares the default
  0. \<open>Counter()\<close> omits the field; the test \<open>not field_defn.default\<close> takes the
  falsy default for a missing one and the construction fails, where the claim gives
  the fact with \<open>n = 0\<close>. A field given by name is not affected.
\<close>

theorem falsy_default_is_rejected:
  "field_default (snd (hd (field_defns (meta Counter)))) = IntV 0 \<and>
   nls_constructor Counter [] [] = Inl (ValueError ''Unspecified field has no default value'') \<and>
   nls_constructor Counter [] [(''n'', IntV 0)] =
     Inr \<lparr> fact_class = 1, field_values = [(''n'', IntV 0)],
           symbol_attr = Some (Function ''counter'' [Number 0]) \<rparr>"
  by (simp add: nls_constructor_def nls_init_by_keyword_values_def generate_symbol_def
      Counter_def field_defn_simps dict_simps)

section \<open>Index selection\<close>

lemma leaf_search:
  "validate_indexable prio (FieldComparator_indexable op arg1 arg2 static) =
     (case drivable_leaves prio (FieldComparator op arg1 arg2 static) of [] \<Rightarrow> None | t # ts \<Rightarrow> Some t)"
  by (cases arg1; cases arg2; cases static) (auto simp: validate_indexable_def)

lemma leaf_at_most_one:
  "length (drivable_leaves prio (FieldComparator op arg1 arg2 static)) \<le> 1"
  by (cases arg1; cases arg2; cases static) auto

lemma leaf_in_keys:
  "t \<in> set (drivable_leaves prio (FieldComparator op arg1 arg2 static)) \<Longrightarrow> fst t \<in> set (dict_keys prio)"
  by (cases arg1; cases arg2; cases static) (auto split: if_splits)

lemma dict_get_key: "k \<in> set (dict_keys d) \<Longrightarrow> \<exists>v. dict_get d k = Some v"
  by (induction d) (auto simp: dict_keys_def dict_get_def)

lemma first_lowest_leaf:
  "first_lowest prio (drivable_leaves prio (FieldComparator op arg1 arg2 static))
     (validate_indexable prio (FieldComparator_indexable op arg1 arg2 static))"
proof (cases "drivable_leaves prio (FieldComparator op arg1 arg2 static)")
  case Nil
  then show ?thesis by (simp add: leaf_search first_lowest_def)
next
  case (Cons t ts)
  have "ts = []" using leaf_at_most_one[of prio op arg1 arg2 static] Cons by simp
  moreover have "fst t \<in> set (dict_keys prio)"
    using leaf_in_keys[of t prio op arg1 arg2 static] Cons by simp
  then obtain p where "dict_get prio (fst t) = Some p" using dict_get_key by fastforce
  ultimately show ?thesis using Cons by (simp add: leaf_search first_lowest_def)
qed

lemma find_app:
  "find P (xs @ ys) = (case find P xs of None \<Rightarrow> find P ys | Some x \<Rightarrow> Some x)"
  by (induction xs) auto

lemma first_lowest_step:
  assumes pre: "first_lowest prio pre (Some cur)"
    and new: "first_lowest prio cs (Some tmp)"
    and pt: "priority_of prio (fst tmp) = Inr pt"
    and pc: "priority_of prio (fst cur) = Inr pc"
  shows "first_lowest prio (pre @ cs) (if pt < pc then Some tmp else Some cur)"
proof -
  have gt: "dict_get prio (fst tmp) = Some pt" and gc: "dict_get prio (fst cur) = Some pc"
    using pt pc by (auto simp: priority_of_def split: option.splits)
  have pre_all: "\<forall>c\<in>set pre. \<exists>q. dict_get prio (fst c) = Some q \<and> pc \<le> q"
    and pre_find: "find (\<lambda>c. dict_get prio (fst c) = Some pc) pre = Some cur"
    using pre gc by (auto simp: first_lowest_def list_all_iff)
  have cs_all: "\<forall>c\<in>set cs. \<exists>q. dict_get prio (fst c) = Some q \<and> pt \<le> q"
    and cs_find: "find (\<lambda>c. dict_get prio (fst c) = Some pt) cs = Some tmp"
    using new gt by (auto simp: first_lowest_def list_all_iff)
  show ?thesis
  proof (cases "pt < pc")
    case True
    have "\<forall>c\<in>set pre. dict_get prio (fst c) \<noteq> Some pt"
      using pre_all True by fastforce
    then have none: "find (\<lambda>c. dict_get prio (fst c) = Some pt) pre = None"
      by (fastforce simp: find_None_iff)
    have "\<forall>c\<in>set (pre @ cs). \<exists>q. dict_get prio (fst c) = Some q \<and> pt \<le> q"
      using pre_all cs_all True by fastforce
    then show ?thesis
      using True gt none cs_find by (simp add: first_lowest_def list_all_iff find_app)
  next
    case False
    have "\<forall>c\<in>set (pre @ cs). \<exists>q. dict_get prio (fst c) = Some q \<and> pc \<le> q"
      using pre_all cs_all False by fastforce
    then show ?thesis
      using False gc pre_find by (simp add: first_lowest_def list_all_iff find_app)
  qed
qed

lemma first_lowest_priority:
  "first_lowest prio cs (Some t) \<Longrightarrow> \<exists>p. priority_of prio (fst t) = Inr p"
  by (auto simp: first_lowest_def priority_of_def)

lemma search_first_lowest:
  "\<exists>r. primary_search prio w = Inr r \<and> first_lowest prio (drivable_leaves prio w) r"
  "\<forall>pre. first_lowest prio pre ix \<longrightarrow>
     (\<exists>r. primary_search_loop prio args ix = Inr r \<and>
          first_lowest prio (pre @ drivable_leaves_list prio args) r)"
proof (induction prio w and prio args ix rule: primary_search_primary_search_loop.induct)
  case (1 prio op arg1 arg2 static)
  then show ?case by (simp add: first_lowest_leaf)
next
  case (2 prio args)
  have "first_lowest prio [] None" by (simp add: first_lowest_def)
  with 2 show ?case by fastforce
next
  case (3 prio args)
  then show ?case by (simp add: first_lowest_def)
next
  case (4 prio args)
  then show ?case by (simp add: first_lowest_def)
next
  case (5 prio v)
  then show ?case by (simp add: first_lowest_def)
next
  case (6 prio ix)
  then show ?case by simp
next
  case (7 prio arg rest ix)
  obtain r1 where r1: "primary_search prio arg = Inr r1"
    and f1: "first_lowest prio (drivable_leaves prio arg) r1"
    using 7(1) by blast
  show ?case
  proof (intro allI impI)
    fix pre
    assume pre: "first_lowest prio pre ix"
    show "\<exists>r. primary_search_loop prio (arg # rest) ix = Inr r \<and>
          first_lowest prio (pre @ drivable_leaves_list prio (arg # rest)) r"
    proof (cases r1)
      case None
      then have "drivable_leaves prio arg = []" using f1 by (simp add: first_lowest_def)
      then show ?thesis using 7(2)[OF r1 None] pre r1 None by simp
    next
      case (Some tmp)
      show ?thesis
      proof (cases ix)
        case None
        then have "pre = []" using pre by (simp add: first_lowest_def)
        then show ?thesis using 7(3)[OF r1 Some None] f1 r1 Some None by simp
      next
        case cur: (Some cur)
        obtain pt where pt: "priority_of prio (fst tmp) = Inr pt"
          using first_lowest_priority f1 Some by blast
        obtain pc where pc: "priority_of prio (fst cur) = Inr pc"
          using first_lowest_priority pre cur by blast
        have step: "first_lowest prio (pre @ drivable_leaves prio arg)
            (if pt < pc then Some tmp else Some cur)"
          using first_lowest_step pre f1 pt pc Some cur by blast
        show ?thesis
        proof (cases "pt < pc")
          case True
          then show ?thesis
            using 7(4)[OF r1 Some cur pt pc True, rule_format, of "pre @ drivable_leaves prio arg"]
              step r1 Some cur pt pc by simp
        next
          case False
          then show ?thesis
            using 7(5)[OF r1 Some cur pt pc False, rule_format, of "pre @ drivable_leaves prio arg"]
              step r1 Some cur pt pc by simp
        qed
      qed
    qed
  qed
qed

text \<open>
  C8. \<open>_primary_search\<close> never raises and returns the first drivable leaf of lowest
  priority number: it returns none exactly when the comparator has no drivable leaf
  (it is neither a drivable field comparison nor an \<open>and\<close> that reaches one through
  \<open>and\<close> nodes), and otherwise a leaf whose priority number no other leaf
  undercuts and which comes first, in child order, among the leaves of that
  priority. An \<open>or\<close> node, a \<open>not\<close> node, a comparison on a field that is not
  indexed and a comparison whose other side is a field give none.
\<close>

theorem primary_search_first_lowest_priority:
  "(\<exists>r. primary_search prio w = Inr r \<and>
        (r = None \<longleftrightarrow> drivable_leaves prio w = []) \<and>
        (\<forall>t. r = Some t \<longrightarrow>
           t \<in> set (drivable_leaves prio w) \<and>
           (\<exists>p. dict_get prio (fst t) = Some p \<and>
                (\<forall>c \<in> set (drivable_leaves prio w).
                   \<exists>q. dict_get prio (fst c) = Some q \<and> p \<le> q) \<and>
                find (\<lambda>c. dict_get prio (fst c) = Some p) (drivable_leaves prio w) = Some t))) \<and>
   primary_search prio (BoolComparator Op_or args) = Inr None \<and>
   primary_search prio (BoolComparator Op_not args) = Inr None \<and>
   (f \<notin> set (dict_keys prio) \<longrightarrow>
      primary_search prio (FieldComparator op (AField f) arg2 static) = Inr None) \<and>
   primary_search prio (FieldComparator op arg1 (AField g) static) = Inr None"
proof -
  obtain r where r: "primary_search prio w = Inr r"
    and fl: "first_lowest prio (drivable_leaves prio w) r"
    using search_first_lowest(1) by blast
  have none: "r = None \<longleftrightarrow> drivable_leaves prio w = []"
    using fl by (cases r) (auto simp: first_lowest_def)
  have some: "\<forall>t. r = Some t \<longrightarrow>
           t \<in> set (drivable_leaves prio w) \<and>
           (\<exists>p. dict_get prio (fst t) = Some p \<and>
                (\<forall>c \<in> set (drivable_leaves prio w).
                   \<exists>q. dict_get prio (fst c) = Some q \<and> p \<le> q) \<and>
                find (\<lambda>c. dict_get prio (fst c) = Some p) (drivable_leaves prio w) = Some t)"
  proof (intro allI impI)
    fix t
    assume "r = Some t"
    then obtain p where p: "dict_get prio (fst t) = Some p"
      and al: "list_all (\<lambda>c. \<exists>q. dict_get prio (fst c) = Some q \<and> p \<le> q) (drivable_leaves prio w)"
      and fi: "find (\<lambda>c. dict_get prio (fst c) = Some p) (drivable_leaves prio w) = Some t"
      using fl by (auto simp: first_lowest_def)
    have "t \<in> set (drivable_leaves prio w)"
      using fi by (auto simp: find_Some_iff)
    then show "t \<in> set (drivable_leaves prio w) \<and>
           (\<exists>p. dict_get prio (fst t) = Some p \<and>
                (\<forall>c \<in> set (drivable_leaves prio w).
                   \<exists>q. dict_get prio (fst c) = Some q \<and> p \<le> q) \<and>
                find (\<lambda>c. dict_get prio (fst c) = Some p) (drivable_leaves prio w) = Some t)"
      using p al fi by (auto simp: list_all_iff)
  qed
  have unindexed: "f \<notin> set (dict_keys prio) \<longrightarrow>
      primary_search prio (FieldComparator op (AField f) arg2 static) = Inr None"
    by (cases arg2; cases static) (auto simp: validate_indexable_def)
  have other_field: "primary_search prio (FieldComparator op arg1 (AField g) static) = Inr None"
    by (cases arg1; cases static) (auto simp: validate_indexable_def)
  show ?thesis
    using r none some unindexed other_field by simp
qed

theorem primary_search_first_lowest_priority_witness:
  "Point_y \<notin> set (dict_keys [(Point_x, 0)]) \<and>
   primary_search [(Point_x, 0)] (y_eq 4) = Inr None \<and>
   drivable_leaves [(Point_x, 0)] (BoolComparator Op_and [y_eq 4, x_gt 1, x_lt 3]) =
     [(Point_x, Gt, AValue (IntV 1)), (Point_x, Lt, AValue (IntV 3))] \<and>
   primary_search [(Point_x, 0)] (BoolComparator Op_and [y_eq 4, x_gt 1, x_lt 3]) =
     Inr (Some (Point_x, Gt, AValue (IntV 1))) \<and>
   drivable_leaves [(Point_x, 0), (Point_y, 1)] (BoolComparator Op_and [y_eq 4, x_gt 1, x_lt 3]) =
     [(Point_y, Eq, AValue (IntV 4)), (Point_x, Gt, AValue (IntV 1)),
      (Point_x, Lt, AValue (IntV 3))] \<and>
   primary_search [(Point_x, 0), (Point_y, 1)] (BoolComparator Op_and [y_eq 4, x_gt 1, x_lt 3]) =
     Inr (Some (Point_x, Gt, AValue (IntV 1)))"
  using primary_search_first_lowest_priority
    [of "[(Point_x, 0)]" "BoolComparator Op_and [y_eq 4, x_gt 1, x_lt 3]" "[]" Point_y Eq
        "AValue (IntV 4)" None "AField Point_x" Point_x]
    primary_search_first_lowest_priority
    [of "[(Point_x, 0), (Point_y, 1)]" "BoolComparator Op_and [y_eq 4, x_gt 1, x_lt 3]" "[]"
        Point_y Eq "AValue (IntV 4)" None "AField Point_x" Point_x]
  by (simp add: y_eq_def x_gt_def x_lt_def Point_x_def Point_y_def validate_indexable_def
      priority_of_def dict_simps)

section \<open>Binding placeholders\<close>









lemma Point_x_eq_ph: "Field_compare Eq Point_x (APlaceholder p) = Inr (x_eq_ph p)"
  by (simp add: Field_compare_def FieldComparator_init_def x_eq_ph_def)



























section \<open>Unification\<close>

lemma integer_pytocl_unifies: "integer_pytocl v = Inr s \<Longrightarrow> integer_unifies s"
  by (cases v) auto

lemma string_pytocl_unifies: "string_pytocl v = Inr s \<Longrightarrow> string_unifies s"
  by (cases v) auto

lemma constant_pytocl_unifies:
  "constant_pytocl v = Inr s \<Longrightarrow> s \<noteq> Function [] [] \<Longrightarrow> constant_unifies s"
  by (cases v) (auto split: if_splits)

lemma IntegerField_accepts: "accepts_own_encodings (IntegerField outf inpf d)"
  by (auto simp: accepts_own_encodings_def field_defn_simps
      split: option.splits dest: integer_pytocl_unifies)

lemma StringField_accepts: "accepts_own_encodings (StringField outf inpf d)"
  by (auto simp: accepts_own_encodings_def field_defn_simps
      split: option.splits dest: string_pytocl_unifies)

lemma ConstantField_accepts: "accepts_own_encodings (ConstantField outf inpf d)"
  by (auto simp: accepts_own_encodings_def field_defn_simps
      split: option.splits dest: constant_pytocl_unifies)

lemma generate_args_unifies:
  "list_all (\<lambda>fd. accepts_own_encodings (snd fd)) fds \<Longrightarrow> generate_args fds fv = Inr as \<Longrightarrow>
   Function [] [] \<notin> set as \<Longrightarrow> length as = length fds \<and> unifies_loop fds as"
proof (induction fds arbitrary: as)
  case Nil
  then show ?case by simp
next
  case (Cons fd rest)
  obtain v s ss where v: "dict_get fv (fst fd) = Some v"
    and s: "pytocl (snd fd) v = Inr s"
    and ss: "generate_args rest fv = Inr ss"
    and as: "as = s # ss"
    using Cons.prems(2) by (auto split: option.splits sum.splits)
  have "unifies (snd fd) s"
    using Cons.prems(1,3) s as by (auto simp: accepts_own_encodings_def)
  moreover have "length ss = length rest \<and> unifies_loop rest ss"
    using Cons.IH[OF _ ss] Cons.prems(1,3) as by simp
  ultimately show ?case using as by simp
qed

lemma symbol_unifies:
  assumes "list_all (\<lambda>fd. accepts_own_encodings (snd fd)) (field_defns (meta cls))"
    and "symbol_of cls f = Inr s" and "Function [] [] \<notin> set (symbol_arguments s)"
  shows "nls_unifies cls s"
proof -
  obtain as where as: "generate_args (field_defns (meta cls)) (field_values f) = Inr as"
    and s: "s = Function (meta_name (meta cls)) as"
    using assms(2) by (auto simp: symbol_of_def generate_symbol_def split: sum.splits)
  show ?thesis
    using generate_args_unifies[OF assms(1) as] assms(3) s by simp
qed

lemma constructed_has_symbol:
  assumes "nls_constructor cls args kwargs = Inr f"
    and "args = [] \<or> length args = arity (meta cls)"
  shows "\<exists>s. symbol_of cls f = Inr s"
proof (cases "args = []")
  case True
  then have "nls_init_by_keyword_values cls kwargs = Inr f"
    using assms(1) by (auto simp: nls_constructor_def split: if_splits)
  then show ?thesis
    by (auto simp: nls_init_by_keyword_values_def Let_def symbol_of_def generate_symbol_def
        split: if_splits sum.splits)
next
  case False
  then have "nls_init_by_positional_values cls args = Inr f"
    using assms(1) by (auto simp: nls_constructor_def split: if_splits)
  then show ?thesis
    using assms(2) False
    by (auto simp: nls_init_by_positional_values_def Let_def symbol_of_def generate_symbol_def
        arity_def split: if_splits sum.splits)
qed

lemma unifies_rejects:
  "nm \<noteq> meta_name (meta cls) \<or> length as \<noteq> arity (meta cls) \<Longrightarrow>
   \<not> nls_unifies cls (Function nm as)"
  by (auto simp: arity_def)

text \<open>
  C9, as amended. For a class whose field definitions accept their own encodings
  (the three simple field classes do), a fact constructed from keyword values, or
  from positional values as many as the class has fields, has a symbol, and
  \<open>_unifies\<close> accepts that symbol unless one of its arguments is the empty tuple;
  the same holds of the symbol of any fact of the class whenever that symbol can be
  generated. \<open>_unifies\<close> rejects a function symbol whose name is not the class's
  name or whose number of arguments is not the arity, and every symbol that is not a
  function.
\<close>

theorem unifies_accepts_canonical_form:
  "(list_all (\<lambda>fd. accepts_own_encodings (snd fd)) (field_defns (meta cls)) \<longrightarrow>
    nls_constructor cls args kwargs = Inr g \<longrightarrow>
    (args = [] \<or> length args = arity (meta cls)) \<longrightarrow>
      (\<exists>t. symbol_of cls g = Inr t \<and>
           (Function [] [] \<notin> set (symbol_arguments t) \<longrightarrow> nls_unifies cls t))) \<and>
   (list_all (\<lambda>fd. accepts_own_encodings (snd fd)) (field_defns (meta cls)) \<longrightarrow>
    symbol_of cls f = Inr s \<longrightarrow> Function [] [] \<notin> set (symbol_arguments s) \<longrightarrow>
      nls_unifies cls s) \<and>
   (nm \<noteq> meta_name (meta cls) \<or> length as \<noteq> arity (meta cls) \<longrightarrow>
      \<not> nls_unifies cls (Function nm as)) \<and>
   \<not> nls_unifies cls (Number i) \<and> \<not> nls_unifies cls (String str) \<and>
   accepts_own_encodings (IntegerField outf inpf d) \<and>
   accepts_own_encodings (StringField outf inpf d) \<and>
   accepts_own_encodings (ConstantField outf inpf d)"
proof -
  have ab: "list_all (\<lambda>fd. accepts_own_encodings (snd fd)) (field_defns (meta cls)) \<longrightarrow>
    nls_constructor cls args kwargs = Inr g \<longrightarrow>
    (args = [] \<or> length args = arity (meta cls)) \<longrightarrow>
      (\<exists>t. symbol_of cls g = Inr t \<and>
           (Function [] [] \<notin> set (symbol_arguments t) \<longrightarrow> nls_unifies cls t))"
    using constructed_has_symbol[of cls args kwargs g] symbol_unifies[of cls g] by blast
  have any: "list_all (\<lambda>fd. accepts_own_encodings (snd fd)) (field_defns (meta cls)) \<longrightarrow>
    symbol_of cls f = Inr s \<longrightarrow> Function [] [] \<notin> set (symbol_arguments s) \<longrightarrow>
      nls_unifies cls s"
    using symbol_unifies[of cls f s] by blast
  have rej: "nm \<noteq> meta_name (meta cls) \<or> length as \<noteq> arity (meta cls) \<longrightarrow>
      \<not> nls_unifies cls (Function nm as)"
    using unifies_rejects[of nm cls as] by blast
  have other: "\<not> nls_unifies cls (Number i) \<and> \<not> nls_unifies cls (String str)"
    by simp
  show ?thesis
    using ab any rej other IntegerField_accepts StringField_accepts ConstantField_accepts
    by blast
qed

text \<open>
  C9 as stated fails for a constant field holding the empty name: \<open>Item(name="")\<close>
  is constructed, its symbol is \<open>item(())\<close>, and \<open>constant_unifies\<close> refuses the
  empty tuple, so \<open>Item._unifies\<close> rejects the fact's own symbol.
\<close>

theorem empty_constant_does_not_unify:
  "nls_constructor Item [] [(''name'', StrV [])] =
     Inr \<lparr> fact_class = 2, field_values = [(''name'', StrV [])],
           symbol_attr = Some (Function ''item'' [Function [] []]) \<rparr> \<and>
   symbol_of Item \<lparr> fact_class = 2, field_values = [(''name'', StrV [])],
                    symbol_attr = Some (Function ''item'' [Function [] []]) \<rparr> =
     Inr (Function ''item'' [Function [] []]) \<and>
   \<not> nls_unifies Item (Function ''item'' [Function [] []])"
  by (simp add: nls_constructor_def nls_init_by_keyword_values_def generate_symbol_def
      symbol_of_def Item_def field_defn_simps dict_simps)

text \<open>
  The hypotheses of C9 at \<open>Point(1, 2)\<close> and at a symbol of another name.
\<close>

theorem unifies_accepts_canonical_form_witness:
  "list_all (\<lambda>fd. accepts_own_encodings (snd fd)) (field_defns (meta Point)) \<and>
   nls_constructor Point [IntV 1, IntV 2] [] = Inr (point 1 2) \<and>
   length [IntV 1, IntV 2] = arity (meta Point) \<and>
   symbol_of Point (point 1 2) = Inr (Function ''point'' [Number 1, Number 2]) \<and>
   nls_unifies Point (Function ''point'' [Number 1, Number 2]) \<and>
   ''pt'' \<noteq> meta_name (meta Point) \<and>
   \<not> nls_unifies Point (Function ''pt'' [Number 1, Number 2])"
proof -
  have a: "list_all (\<lambda>fd. accepts_own_encodings (snd fd)) (field_defns (meta Point))"
    by (simp add: Point_def IntegerField_accepts)
  have n: "Function [] [] \<notin> set (symbol_arguments (Function ''point'' [Number 1, Number 2]))"
    by simp
  note t = unifies_accepts_canonical_form[where cls = Point and args = "[IntV 1, IntV 2]"
      and kwargs = "[]" and g = "point 1 2" and nm = "''pt''" and as = "[Number 1, Number 2]"]
  have l: "length [IntV 1, IntV 2] = arity (meta Point)"
    by (simp add: Point_def arity_def)
  have u: "nls_unifies Point (Function ''point'' [Number 1, Number 2])"
    using t[THEN conjunct1] a n l Point_positional[of 1 2] symbol_of_point[of 1 2] by auto
  have r: "\<not> nls_unifies Point (Function ''pt'' [Number 1, Number 2])"
    using t[THEN conjunct2, THEN conjunct2, THEN conjunct1] by (simp add: Point_def)
  show ?thesis
    using a u r by (simp add: Point_positional symbol_of_point) (simp add: Point_def arity_def)
qed

end
